theory Spec2Isabelle
  imports Complex_Main
begin

section \<open>Python values and exceptions\<close>

text \<open>
  The exceptions the modelled functions raise. A raise is the left injection of a sum
  type; \<open>ExternalError\<close> stands for whatever an external collaborator (the language
  model gateway, the video classes that are not part of the modelled files) raises.
\<close>

datatype py_error =
    ValueError
  | TypeError
  | KeyError
  | AssertionError
  | FileNotFoundError
  | SameFileError
  | ClientError
  | ExternalError string

text \<open>
  The dynamically typed values that \<open>get_path_type\<close> builds and its callers take
  apart: \<open>None\<close>, strings, dictionaries with string keys (in insertion order) and tuples.
\<close>

datatype pyval =
    PyNone
  | PyStr string
  | PyDict "(string \<times> pyval) list"
  | PyTuple "pyval list"

text \<open>\<open>bool(v)\<close>: \<open>None\<close> and the empty string, dictionary and tuple are false.\<close>

fun truthy :: "pyval \<Rightarrow> bool" where
  "truthy PyNone = False"
| "truthy (PyStr s) = (s \<noteq> [])"
| "truthy (PyDict kvs) = (kvs \<noteq> [])"
| "truthy (PyTuple xs) = (xs \<noteq> [])"

text \<open>
  \<open>v[key]\<close> for a string key: a dictionary looks the key up (\<open>KeyError\<close> when it is
  missing); a tuple or a string takes integer indices only and \<open>None\<close> is not
  subscriptable, so each raises \<open>TypeError\<close>.
\<close>

fun getitem :: "pyval \<Rightarrow> string \<Rightarrow> py_error + pyval" where
  "getitem (PyDict kvs) key = (case map_of kvs key of None \<Rightarrow> Inl KeyError | Some v \<Rightarrow> Inr v)"
| "getitem (PyTuple xs) key = Inl TypeError"
| "getitem (PyStr s) key = Inl TypeError"
| "getitem PyNone key = Inl TypeError"

text \<open>
  \<open>a, b = v\<close>: a tuple of two components unpacks; a tuple of another length, and a
  dictionary or string that does not iterate over exactly two items, raises
  \<open>ValueError\<close>; \<open>None\<close> is not iterable.
\<close>

fun unpack2 :: "pyval \<Rightarrow> py_error + (pyval \<times> pyval)" where
  "unpack2 (PyTuple [a, b]) = Inr (a, b)"
| "unpack2 (PyTuple xs) = Inl ValueError"
| "unpack2 (PyDict [(k1, v1), (k2, v2)]) = Inr (PyStr k1, PyStr k2)"
| "unpack2 (PyDict kvs) = Inl ValueError"
| "unpack2 (PyStr [c1, c2]) = Inr (PyStr [c1], PyStr [c2])"
| "unpack2 (PyStr s) = Inl ValueError"
| "unpack2 PyNone = Inl TypeError"

section \<open>Strings\<close>

text \<open>\<open>s.startswith(p)\<close>.\<close>

fun startswith :: "string \<Rightarrow> string \<Rightarrow> bool" where
  "startswith s [] = True"
| "startswith [] (p # ps) = False"
| "startswith (c # cs) (p # ps) = (c = p \<and> startswith cs ps)"

text \<open>\<open>s.strip(chars)\<close>: the characters of \<open>chars\<close> are removed from both ends.\<close>

definition strip :: "string \<Rightarrow> string \<Rightarrow> string" where
  "strip s chars = rev (dropWhile (\<lambda>c. c \<in> set chars) (rev (dropWhile (\<lambda>c. c \<in> set chars) s)))"

text \<open>
  \<open>s.replace(old, new)\<close> for a non-empty \<open>old\<close>: every occurrence, found from the left
  and without overlap, is replaced. (With an empty \<open>old\<close> Python inserts \<open>new\<close> between
  all characters; no modelled call does that, and the model returns \<open>s\<close> there.)
\<close>

function replace :: "string \<Rightarrow> string \<Rightarrow> string \<Rightarrow> string" where
  "replace [] old new = []"
| "replace (c # cs) old new =
     (if old \<noteq> [] \<and> startswith (c # cs) old
      then new @ replace (drop (length old) (c # cs)) old new
      else c # replace cs old new)"
  by pat_completeness auto
termination
  by (relation "measure (\<lambda>(s, old, new). length s)") auto

text \<open>\<open>s.upper()\<close> on ASCII letters (the reserved names it is compared with are ASCII).\<close>

definition upper_char :: "char \<Rightarrow> char" where
  "upper_char c =
     (if (97::nat) \<le> of_char c \<and> of_char c \<le> (122::nat) then char_of (of_char c - (32::nat)) else c)"

definition upper :: "string \<Rightarrow> string" where
  "upper s = map upper_char s"

section \<open>The operating system, the file system and the network\<close>

text \<open>
  What \<open>file_tools.py\<close> reads from its surroundings: \<open>sys.platform\<close>; the result of
  \<open>os.pathconf(".", "PC_NAME_MAX")\<close> (\<open>None\<close> when the call raises \<open>AttributeError\<close>,
  \<open>ValueError\<close> or \<open>os.error\<close>); the scheme \<open>urllib.parse.urlparse\<close> finds in a string;
  the file a path names (\<open>resolve\<close>, as \<open>os.path.realpath\<close> gives it: a relative path, an
  absolute path and a symbolic link can name one file); and whether a file can be created
  at a path. The file system maps the files that exist, each under its resolved name, to
  their content, and the network maps a URL to the status and body of the response to a
  GET request (\<open>None\<close> when the request fails). \<open>url_scheme\<close> stands for \<open>urlparse\<close> where it
  returns; for a string with an unmatched bracket in its host part \<open>urlparse\<close> raises
  \<open>ValueError\<close> instead, which is not modelled.
\<close>

record os_env =
  platform :: string
  pc_name_max :: "int option"
  url_scheme :: "string \<Rightarrow> string"
  resolve :: "string \<Rightarrow> string"
  can_create :: "string \<Rightarrow> bool"

type_synonym fs = "string \<Rightarrow> string option"

type_synonym web = "string \<Rightarrow> (nat \<times> string) option"

text \<open>\<open>os.path.exists(path)\<close>.\<close>

definition path_exists :: "os_env \<Rightarrow> fs \<Rightarrow> string \<Rightarrow> bool" where
  "path_exists env files path = (files (resolve env path) \<noteq> None)"

text \<open>\<open>os.path.samefile(a, b)\<close> where it returns: both paths exist and name one file.\<close>

definition samefile :: "os_env \<Rightarrow> fs \<Rightarrow> string \<Rightarrow> string \<Rightarrow> bool" where
  "samefile env files a b =
     (path_exists env files a \<and> path_exists env files b \<and> resolve env a = resolve env b)"

text \<open>\<open>os.path.basename(path)\<close> of \<open>posixpath\<close>: what follows the last slash.\<close>

definition basename :: "string \<Rightarrow> string" where
  "basename path = rev (takeWhile (\<lambda>c. c \<noteq> CHR ''/'') (rev path))"

text \<open>
  \<open>shutil.copyfile(src, dst)\<close>: \<open>SameFileError\<close> when source and destination are the
  same file; then \<open>FileNotFoundError\<close> when the source does not exist or the destination
  cannot be created; otherwise the file the destination names holds the source's content.
\<close>

definition copyfile :: "os_env \<Rightarrow> string \<Rightarrow> string \<Rightarrow> fs \<Rightarrow> py_error + fs" where
  "copyfile env src dst files =
     (if samefile env files src dst then Inl SameFileError
      else
        (case files (resolve env src) of
           None \<Rightarrow> Inl FileNotFoundError
         | Some content \<Rightarrow>
             if \<not> can_create env dst then Inl FileNotFoundError
             else Inr (files(resolve env dst \<mapsto> content))))"

section \<open>\<open>vikit/common/file_tools.py\<close>\<close>

text \<open>\<open>get_max_filename_length\<close>: \<open>PC_NAME_MAX\<close> of the current directory, 255 when unavailable.\<close>

definition get_max_filename_length :: "os_env \<Rightarrow> int" where
  "get_max_filename_length env = (case pc_name_max env of Some n \<Rightarrow> n | None \<Rightarrow> 255)"

text \<open>
  The character class \<open>[<>:"/\\|?*\x00-\x1F]\<close> of the Windows branch, and the reserved
  device names \<open>CON, PRN, AUX, NUL, COM1..COM9, LPT1..LPT9\<close>.
\<close>

definition win_invalid_char :: "char \<Rightarrow> bool" where
  "win_invalid_char c =
     (c \<in> set ''<>:/|?*'' \<or> c = CHR 0x22 \<or> c = CHR 0x5C \<or> of_char c < (32::nat))"

definition reserved_names :: "string list" where
  "reserved_names =
     [''CON'', ''PRN'', ''AUX'', ''NUL''] @
     concat (map (\<lambda>name. map (\<lambda>i. name @ [i]) ''123456789'') [''COM'', ''LPT''])"

text \<open>
  \<open>is_valid_filename\<close>: on Windows a name that starts with a reserved device name or holds
  a character of the class above is refused, elsewhere a name that holds a slash; then a
  name with a leading or trailing space or dot, and a name longer than the maximum.
\<close>

definition is_valid_filename :: "os_env \<Rightarrow> string \<Rightarrow> bool" where
  "is_valid_filename env filename =
     (let win = startswith (platform env) ''win'' in
      if win \<and> list_ex (\<lambda>reserved. startswith (upper filename) reserved) reserved_names then False
      else if list_ex (if win then win_invalid_char else (\<lambda>c. c = CHR ''/'')) filename then False
      else if strip filename '' .'' \<noteq> filename then False
      else if int (length filename) > get_max_filename_length env then False
      else True)"

text \<open>
  \<open>get_path_type\<close>. Every \<open>return\<close> builds a tuple. The last one returns the pair
  \<open>(result, error)\<close> where \<open>result\<close> is itself the pair of a dictionary and the
  message \<open>"undefined path"\<close>, and \<open>error\<close> is still \<open>None\<close>.
\<close>

definition get_path_type :: "os_env \<Rightarrow> fs \<Rightarrow> string option \<Rightarrow> pyval" where
  "get_path_type env files path =
     (let error = PyNone;
          result = PyTuple [PyDict [(''type'', PyStr ''undefined''), (''path'', PyStr ''undefined'')],
                            PyStr ''undefined path'']
      in case path of
           None \<Rightarrow>
             PyTuple [PyDict [(''type'', PyStr ''none''), (''path'', PyNone)], PyStr ''The path is None'']
         | Some p \<Rightarrow>
             if int (length p) > get_max_filename_length env then
               PyTuple [PyDict [(''type'', PyStr ''error''), (''path'', PyStr [])],
                        PyStr ''The file name is too long for local filesystem storage'']
             else if path_exists env files p \<or> is_valid_filename env (basename p) then
               (if startswith p ''file://''
                then PyTuple [PyDict [(''type'', PyStr ''local_url_format''), (''path'', PyStr p)], PyNone]
                else PyTuple [PyDict [(''type'', PyStr ''local''), (''path'', PyStr p)], PyNone])
             else if url_scheme env p \<in> set [''http'', ''https'', ''s3'', ''gs'']
             then PyTuple [PyDict [(''type'', PyStr (url_scheme env p)), (''path'', PyStr p)], PyNone]
             else PyTuple [result, error])"

text \<open>
  \<open>is_valid_path\<close> subscripts what \<open>get_path_type\<close> returned with \<open>"type"\<close>, once for
  each side of the \<open>or\<close> that is evaluated.
\<close>

definition is_valid_path :: "os_env \<Rightarrow> fs \<Rightarrow> string option \<Rightarrow> py_error + bool" where
  "is_valid_path env files path =
     (let path' = get_path_type env files path in
      case getitem path' ''type'' of
        Inl e \<Rightarrow> Inl e
      | Inr t \<Rightarrow>
          if t = PyStr ''error'' then Inr False
          else (case getitem path' ''type'' of
                  Inl e \<Rightarrow> Inl e
                | Inr t' \<Rightarrow> if t' = PyStr ''none'' then Inr False else Inr True))"

text \<open>
  The loop of \<open>download_file\<close> that reads the response 1024 characters at a time and
  appends each chunk to the open file until a read returns nothing.
\<close>

function write_chunks :: "string \<Rightarrow> string \<Rightarrow> string" where
  "write_chunks content written =
     (let chunk = take 1024 content in
      if chunk = [] then written else write_chunks (drop 1024 content) (written @ chunk))"
  by pat_completeness auto
termination
  by (relation "measure (\<lambda>(content, written). length content)") auto

declare write_chunks.simps [simp del]

text \<open>
  \<open>download_file\<close>, returning the value or the exception together with the file system it
  leaves. A call that falls off the end of the function returns \<open>None\<close>. In the
  \<open>http\<close>/\<open>https\<close> branch the file opened for writing is \<open>url\<close>. (The decorator
  \<open>log_function_params\<close> logs the arguments and is left out.)
\<close>

definition download_file ::
  "os_env \<Rightarrow> web \<Rightarrow> string option \<Rightarrow> string \<Rightarrow> fs \<Rightarrow> (py_error + pyval) \<times> fs" where
  "download_file env net url local_path files =
     (case url of
        None \<Rightarrow> (Inl ValueError, files)
      | Some u \<Rightarrow>
          if u = [] then (Inl ValueError, files)
          else
            (case unpack2 (get_path_type env files (Some u)) of
               Inl e \<Rightarrow> (Inl e, files)
             | Inr (path_desc, error) \<Rightarrow>
                 if \<not> truthy error then
                   (case getitem path_desc ''type'' of
                      Inl e \<Rightarrow> (Inl e, files)
                    | Inr t \<Rightarrow>
                        if t = PyStr ''http'' \<or> t = PyStr ''https'' then
                          (case net u of
                             None \<Rightarrow> (Inl ClientError, files)
                           | Some (status, body) \<Rightarrow>
                               if status = 200 then
                                 (if can_create env u
                                  then (Inr (PyStr local_path), files(resolve env u \<mapsto> write_chunks body []))
                                  else (Inl FileNotFoundError, files))
                               else (Inr PyNone, files))
                        else if t = PyStr ''local'' then
                          (case copyfile env u local_path files of
                             Inl e \<Rightarrow> (Inl e, files)
                           | Inr files' \<Rightarrow> (Inr (PyStr local_path), files'))
                        else if t = PyStr ''local_url_format'' then
                          (let u' = replace u ''file://'' [] in
                           case copyfile env u' local_path files of
                             Inl e \<Rightarrow> (Inl e, files)
                           | Inr files' \<Rightarrow> (Inr (PyStr local_path), files'))
                        else (Inr PyNone, files))
                 else (Inl ValueError, files)))"

section \<open>Prompts, build settings and video nodes\<close>

text \<open>
  The classes below are used by \<open>prompt_based_video.py\<close> and by the tests but are defined
  in files that are not part of the sources. Each record holds the attributes that the
  sources read or pass: a subtitle (\<open>pysrt.SubRipItem\<close>) its \<open>text\<close> and \<open>duration\<close>; a
  prompt its \<open>text\<close>, \<open>subtitles\<close> and \<open>duration\<close>; \<open>PromptBuildSettings\<close> and
  \<open>VideoBuildSettings\<close> the keyword arguments the sources and tests construct them with.
  Durations are seconds; Python's floats are modelled by the reals.
\<close>

record subtitle =
  sub_text :: string
  sub_duration :: real

record prompt =
  prompt_text :: string
  subtitles :: "subtitle list"
  duration :: real

record prompt_build_settings =
  pbs_test_mode :: bool
  generate_from_llm_keyword :: bool
  generate_from_llm_prompt :: bool

record music_building_context =
  apply_background_music :: bool
  generate_background_music :: bool

record video_build_settings =
  prompt :: "prompt option"
  test_mode :: bool
  expected_length :: "real option"
  include_read_aloud_prompt :: bool
  interpolate :: bool
  music_context :: music_building_context

text \<open>
  The attributes every video carries: \<open>media_url\<close> (absent until there is a rendered
  file), the flag \<open>_needs_reencoding\<close> that the handler chain reads, and the build
  settings recorded when the video is prepared.
\<close>

record video_info =
  media_url :: "string option"
  needs_reencoding :: bool
  node_build_settings :: "video_build_settings option"

text \<open>
  The tree of videos. A \<open>PromptBasedVideo\<close> is a \<open>CompositeVideo\<close> (it inherits
  \<open>video_list\<close> and \<open>append_video\<close>) with a prompt and the flag
  \<open>_is_root_video_composite\<close>; a \<open>SeineTransition\<close> refers to its source and target.
\<close>

datatype video =
    ImportedVideo (info: video_info)
  | RawTextBasedVideo (info: video_info) (raw_text: string)
  | SeineTransition (info: video_info) (source_video: video) (target_video: video)
  | CompositeVideo (info: video_info) (video_list: "video list")
  | PromptBasedVideo (info: video_info) (video_list: "video list") (own_prompt: prompt)
      (is_root_video_composite: bool)

text \<open>
  What the collaborators outside the sources contribute: the prompt the language model
  gateway returns (\<open>PromptFactory.get_reengineered_prompt_from_text\<close>, for a factory built
  with the given test mode) or the exception it raises; the exception, if any, with
  which preparing a text based video fails; the values \<open>VideoBuildSettings()\<close> gives the
  arguments that are not passed; and the value \<open>Video.__init__\<close> gives
  \<open>_needs_reencoding\<close>.
\<close>

record externals =
  get_reengineered_prompt_from_text ::
    "bool \<Rightarrow> string \<Rightarrow> prompt_build_settings \<Rightarrow> real \<Rightarrow> py_error + prompt"
  prepare_build_error :: "video \<Rightarrow> video_build_settings \<Rightarrow> py_error option"
  default_build_settings :: video_build_settings
  default_needs_reencoding :: bool

text \<open>Sequencing of calls that may raise: the first exception ends the computation.\<close>

definition and_then :: "py_error + 'a \<Rightarrow> ('a \<Rightarrow> py_error + 'b) \<Rightarrow> py_error + 'b" where
  "and_then m f = (case m of Inl e \<Rightarrow> Inl e | Inr x \<Rightarrow> f x)"

text \<open>\<open>VideoBuildSettings(prompt=p, test_mode=t)\<close>: a new object, the other fields at their defaults.\<close>

definition VideoBuildSettings :: "externals \<Rightarrow> prompt option \<Rightarrow> bool \<Rightarrow> video_build_settings" where
  "VideoBuildSettings env p t = (default_build_settings env)\<lparr>prompt := p, test_mode := t\<rparr>"

text \<open>
  Modelled from the spec: the attributes of a newly constructed video (\<open>Video.__init__\<close>
  is in \<open>video.py\<close>, which is missing). A new node has no media and no recorded build
  settings.
\<close>

definition new_video_info :: "externals \<Rightarrow> video_info" where
  "new_video_info env =
     \<lparr>media_url = None, needs_reencoding = default_needs_reencoding env, node_build_settings = None\<rparr>"

text \<open>
  Modelled from the spec: \<open>CompositeVideo()\<close> (\<open>composite_video.py\<close> is missing). A new
  composite has no children.
\<close>

definition new_CompositeVideo :: "externals \<Rightarrow> video" where
  "new_CompositeVideo env = CompositeVideo (new_video_info env) []"

text \<open>
  Modelled from the spec: \<open>RawTextBasedVideo(text)\<close> (\<open>raw_text_based_video.py\<close> is
  missing). The node holds the text; the tests add that \<open>RawTextBasedVideo(None)\<close> raises
  \<open>ValueError\<close>.
\<close>

definition new_RawTextBasedVideo :: "externals \<Rightarrow> string option \<Rightarrow> py_error + video" where
  "new_RawTextBasedVideo env raw_text_prompt =
     (case raw_text_prompt of
        None \<Rightarrow> Inl ValueError
      | Some t \<Rightarrow> Inr (RawTextBasedVideo (new_video_info env) t))"

text \<open>
  Modelled from the spec: \<open>SeineTransition(source_video, target_video)\<close>
  (\<open>seine_transition.py\<close> is missing). A transition holds the source and the target it
  is given.
\<close>

definition new_SeineTransition :: "externals \<Rightarrow> video \<Rightarrow> video \<Rightarrow> video" where
  "new_SeineTransition env source target = SeineTransition (new_video_info env) source target"

text \<open>
  Modelled from the spec: \<open>RawTextBasedVideo.prepare_build\<close> (\<open>raw_text_based_video.py\<close>
  is missing). Preparing records the settings it is given as the node's \<open>build_settings\<close>
  and returns the node; it renders nothing. A failure of what it resolves is the
  collaborators' \<open>prepare_build_error\<close>.
\<close>

definition RawTextBasedVideo_prepare_build ::
  "externals \<Rightarrow> video \<Rightarrow> video_build_settings \<Rightarrow> py_error + video option" where
  "RawTextBasedVideo_prepare_build env self s =
     (case prepare_build_error env self s of
        Some e \<Rightarrow> Inl e
      | None \<Rightarrow> Inr (Some (RawTextBasedVideo ((info self)\<lparr>node_build_settings := Some s\<rparr>) (raw_text self))))"

text \<open>
  Modelled from the spec: what the spec calls an empty composite (\<open>composite_video.py\<close> is
  missing): a composite, plain or prompt based, with zero children.
\<close>

definition is_composite_video :: "video \<Rightarrow> bool" where
  "is_composite_video v =
     (case v of CompositeVideo i vs \<Rightarrow> True | PromptBasedVideo i vs p r \<Rightarrow> True | _ \<Rightarrow> False)"

definition is_empty_composite :: "video \<Rightarrow> bool" where
  "is_empty_composite v = (is_composite_video v \<and> video_list v = [])"

text \<open>
  Modelled from the spec: \<open>CompositeVideo.append_video\<close> (\<open>composite_video.py\<close> is
  missing), as its effect on the receiver's \<open>video_list\<close>; the receiver itself is
  returned for chaining. Appending an absent child fails (the tests expect \<open>ValueError\<close>);
  an empty composite that is not yet built (no children and no media) is filtered out
  rather than stored; any other child is stored at the end.
\<close>

definition append_video :: "video option \<Rightarrow> video list \<Rightarrow> py_error + video list" where
  "append_video child videos =
     (case child of
        None \<Rightarrow> Inl ValueError
      | Some v \<Rightarrow>
          if is_empty_composite v \<and> media_url (info v) = None then Inr videos
          else Inr (videos @ [v]))"

text \<open>Appending several children in order, as a chain of \<open>append_video\<close> calls does.\<close>

fun append_videos :: "video option list \<Rightarrow> video list \<Rightarrow> py_error + video list" where
  "append_videos [] videos = Inr videos"
| "append_videos (child # rest) videos = and_then (append_video child videos) (append_videos rest)"

section \<open>The ratio computation\<close>

text \<open>
  The error kinds of the specification, and the fault of a division by zero, which the
  specification requires the ratio computation never to raise.
\<close>

datatype error =
    InvalidArgument
  | InvalidConfiguration
  | GenerationError
  | MediaProcessingError
  | LifecycleError
  | DivisionFault

text \<open>Division of two numbers of seconds, as the language has it: a zero divisor is a fault.\<close>

definition divide_seconds :: "real \<Rightarrow> real \<Rightarrow> error + real" where
  "divide_seconds a b = (if b = 0 then Inl DivisionFault else Inr (a / b))"

text \<open>
  Modelled from the spec: \<open>getRatioToMultiplyAnimations\<close>
  (\<open>_get_ratio_to_multiply_animations\<close> is a method of the video classes, which are
  missing; the sources hold only its test). With no prompt in the settings, or a prompt
  of duration zero, the computation fails with an invalid-configuration error, whatever
  the node. Otherwise the ratio is the node's own duration divided by the duration of the
  prompt. A ratio that is not strictly positive is never returned: the specification
  names one error for this computation, so such a quotient is reported as an invalid
  configuration too. The node's duration is what \<open>get_duration\<close> reports: a number of
  seconds, or the error with which probing fails.
\<close>

definition get_ratio_to_multiply_animations ::
  "(video \<Rightarrow> error + real) \<Rightarrow> video \<Rightarrow> video_build_settings \<Rightarrow> error + real" where
  "get_ratio_to_multiply_animations get_duration self settings =
     (case prompt settings of
        None \<Rightarrow> Inl InvalidConfiguration
      | Some p \<Rightarrow>
          if duration p = 0 then Inl InvalidConfiguration
          else (case get_duration self of
                  Inl e \<Rightarrow> Inl e
                | Inr own_duration \<Rightarrow>
                    (case divide_seconds own_duration (duration p) of
                       Inl e \<Rightarrow> Inl e
                     | Inr ratio \<Rightarrow>
                         if ratio \<le> 0 then Inl InvalidConfiguration else Inr ratio)))"

section \<open>\<open>vikit/video/prompt_based_video.py\<close>\<close>

text \<open>
  \<open>PromptBasedVideo.__init__\<close>: no prompt is a \<open>ValueError\<close>; otherwise the node holds
  the prompt and does not need re-encoding. What \<open>super().__init__()\<close> sets up is code of
  \<open>CompositeVideo\<close>; as for a new composite, the node starts without children and media,
  and it is not yet marked as the root composite.
\<close>

definition new_PromptBasedVideo :: "externals \<Rightarrow> prompt option \<Rightarrow> py_error + video" where
  "new_PromptBasedVideo env p =
     (case p of
        None \<Rightarrow> Inl ValueError
      | Some p' \<Rightarrow> Inr (PromptBasedVideo ((new_video_info env)\<lparr>needs_reencoding := False\<rparr>) [] p' False))"

text \<open>
  \<open>_prepare_basic_building_block\<close>: the prompt re-engineered from the subtitle's keywords
  and a text based video prepared with settings made for it, the same from the
  subtitle's text, and a transition from the first video to the second. The result is
  the triple (keyword video, prompt video, transition).
\<close>

definition prepare_basic_building_block ::
  "externals \<Rightarrow> subtitle \<Rightarrow> video_build_settings \<Rightarrow> py_error + (video \<times> video \<times> video)" where
  "prepare_basic_building_block env sub build_stgs =
     and_then (get_reengineered_prompt_from_text env (test_mode build_stgs) (sub_text sub)
                 \<lparr>pbs_test_mode = test_mode build_stgs, generate_from_llm_keyword = True,
                  generate_from_llm_prompt = False\<rparr> (sub_duration sub))
       (\<lambda>enhanced_prompt_from_keywords.
     and_then (new_RawTextBasedVideo env (Some (sub_text sub))) (\<lambda>raw1.
     and_then (RawTextBasedVideo_prepare_build env raw1
                 (VideoBuildSettings env (Some enhanced_prompt_from_keywords) (test_mode build_stgs)))
       (\<lambda>keyword_based_vid.
     and_then (get_reengineered_prompt_from_text env (test_mode build_stgs) (sub_text sub)
                 \<lparr>pbs_test_mode = test_mode build_stgs, generate_from_llm_keyword = False,
                  generate_from_llm_prompt = True\<rparr> (sub_duration sub))
       (\<lambda>enhanced_prompt_from_prompt_text.
     and_then (new_RawTextBasedVideo env (Some (sub_text sub))) (\<lambda>raw2.
     and_then (RawTextBasedVideo_prepare_build env raw2
                 (VideoBuildSettings env (Some enhanced_prompt_from_prompt_text) (test_mode build_stgs)))
       (\<lambda>prompt_based_vid.
     (case keyword_based_vid of
        None \<Rightarrow> Inl AssertionError
      | Some kv \<Rightarrow>
          (case prompt_based_vid of
             None \<Rightarrow> Inl AssertionError
           | Some pv \<Rightarrow> Inr (kv, pv, new_SeineTransition env kv pv)))))))))"

text \<open>
  The loop of \<open>compose\<close> over the subtitles, on the root's \<open>video_list\<close>: per subtitle a new
  composite receives the keyword video, the transition and the prompt video, in this
  order, and is appended to the root.
\<close>

fun compose_loop ::
  "externals \<Rightarrow> video_build_settings \<Rightarrow> subtitle list \<Rightarrow> video list \<Rightarrow> py_error + video list" where
  "compose_loop env build_settings [] videos = Inr videos"
| "compose_loop env build_settings (sub # subs) videos =
     and_then (prepare_basic_building_block env sub build_settings)
       (\<lambda>(keyword_based_vid, prompt_based_vid, transit).
     and_then (append_videos [Some keyword_based_vid, Some transit, Some prompt_based_vid]
                 (video_list (new_CompositeVideo env)))
       (\<lambda>sub_videos.
     and_then (append_video (Some (CompositeVideo (info (new_CompositeVideo env)) sub_videos)) videos)
       (compose_loop env build_settings subs)))"

text \<open>\<open>compose\<close>: marks the receiver as the root composite, runs the loop and returns the receiver.\<close>

definition compose :: "externals \<Rightarrow> video \<Rightarrow> video_build_settings \<Rightarrow> py_error + video" where
  "compose env self build_settings =
     and_then (compose_loop env build_settings (subtitles (own_prompt self)) (video_list self))
       (\<lambda>videos. Inr (PromptBasedVideo (info self) videos (own_prompt self) True))"

text \<open>
  Build settings are objects that caller and callee share, so they live in a store of
  objects by address. The default value of \<open>prepare_build\<close>'s parameter is evaluated once,
  when the method is defined: it is one object, at a fixed address, for every call that
  passes no settings.
\<close>

type_synonym ref = nat

type_synonym store = "ref \<Rightarrow> video_build_settings"

definition default_argument :: ref where
  "default_argument = 0"

text \<open>
  \<open>prepare_build\<close>. \<open>None\<close> for \<open>build_settings\<close> is a call without the argument. The store
  is returned with the result, also when an exception ends the call. A prompt object is
  true in a condition. \<open>super().prepare_build\<close> belongs to \<open>CompositeVideo\<close>, which is
  missing from the sources: it is the parameter \<open>super_prepare_build\<close>.
\<close>

definition prepare_build ::
  "externals \<Rightarrow> (video \<Rightarrow> ref \<Rightarrow> store \<Rightarrow> (py_error + video) \<times> store) \<Rightarrow>
   video \<Rightarrow> ref option \<Rightarrow> store \<Rightarrow> (py_error + video) \<times> store" where
  "prepare_build env super_prepare_build self build_settings objects =
     (let r = (case build_settings of None \<Rightarrow> default_argument | Some given \<Rightarrow> given);
          objects1 =
            (if prompt (objects r) = None
             then objects(r := (objects r)\<lparr>prompt := Some (own_prompt self)\<rparr>)
             else objects)
      in if prompt (objects1 r) = None then (Inl ValueError, objects1)
         else (case compose env self (objects1 r) of
                 Inl e \<Rightarrow> (Inl e, objects1)
               | Inr self' \<Rightarrow> super_prepare_build self' r objects1))"

text \<open>The handlers a chain can hold.\<close>

datatype video_building_handler = VideoReencodingHandler

text \<open>
  \<open>get_and_initialize_video_handler_chain\<close>: the re-encoding handler is appended to the
  empty list when the children flagged \<open>_needs_reencoding\<close> number at least one.
\<close>

definition get_and_initialize_video_handler_chain ::
  "video \<Rightarrow> video_build_settings \<Rightarrow> video_building_handler list" where
  "get_and_initialize_video_handler_chain self build_settings =
     (let handlers = [] in
      if length (filter (\<lambda>video. needs_reencoding (info video)) (video_list self)) \<ge> 1
      then handlers @ [VideoReencodingHandler]
      else handlers)"

section \<open>What the specification expects of \<open>compose\<close>\<close>

text \<open>
  The block the claim about \<open>compose\<close> describes for one subtitle, written from the
  claim's words and not from the code: a composite with exactly three children, in this
  order: a video derived from the subtitle's keywords, a transition from that video to the
  third child, and a video derived from the subtitle's text. Each of the two generated
  videos records build settings of its own: a new settings object that holds the prompt
  re-engineered for that video and the test mode.
\<close>

definition building_block :: "externals \<Rightarrow> bool \<Rightarrow> subtitle \<Rightarrow> prompt \<Rightarrow> prompt \<Rightarrow> video" where
  "building_block env tm sub keyword_prompt text_prompt =
     (let keyword_video =
            RawTextBasedVideo
              ((new_video_info env)\<lparr>node_build_settings :=
                 Some (VideoBuildSettings env (Some keyword_prompt) tm)\<rparr>)
              (sub_text sub);
          prompt_video =
            RawTextBasedVideo
              ((new_video_info env)\<lparr>node_build_settings :=
                 Some (VideoBuildSettings env (Some text_prompt) tm)\<rparr>)
              (sub_text sub)
      in CompositeVideo (new_video_info env)
           [keyword_video, SeineTransition (new_video_info env) keyword_video prompt_video,
            prompt_video])"

text \<open>
  The collaborators succeed on a subtitle: the gateway returns the prompt \<open>kw sub\<close> for
  the keywords and \<open>pt sub\<close> for the text, and preparing either video does not fail.
\<close>

definition externals_succeed ::
  "externals \<Rightarrow> bool \<Rightarrow> (subtitle \<Rightarrow> prompt) \<Rightarrow> (subtitle \<Rightarrow> prompt) \<Rightarrow> subtitle \<Rightarrow> bool" where
  "externals_succeed env tm kw pt sub =
     (get_reengineered_prompt_from_text env tm (sub_text sub)
        \<lparr>pbs_test_mode = tm, generate_from_llm_keyword = True, generate_from_llm_prompt = False\<rparr>
        (sub_duration sub) = Inr (kw sub) \<and>
      get_reengineered_prompt_from_text env tm (sub_text sub)
        \<lparr>pbs_test_mode = tm, generate_from_llm_keyword = False, generate_from_llm_prompt = True\<rparr>
        (sub_duration sub) = Inr (pt sub) \<and>
      prepare_build_error env (RawTextBasedVideo (new_video_info env) (sub_text sub))
        (VideoBuildSettings env (Some (kw sub)) tm) = None \<and>
      prepare_build_error env (RawTextBasedVideo (new_video_info env) (sub_text sub))
        (VideoBuildSettings env (Some (pt sub)) tm) = None)"

section \<open>A concrete environment\<close>

text \<open>
  The scheme as \<open>urllib.parse.urlsplit\<close> finds it. Leading spaces and control characters
  are dropped and every tab, carriage return and line feed is removed; then the scheme is
  what stands before the first colon, in lower case, when there is at least one
  character, the first is an ASCII letter and all are letters, digits, \<open>+\<close>, \<open>-\<close> or
  \<open>.\<close>; the empty string otherwise.
\<close>

definition urlsplit_clean :: "string \<Rightarrow> string" where
  "urlsplit_clean url =
     filter (\<lambda>c. c \<noteq> CHR 0x09 \<and> c \<noteq> CHR 0x0A \<and> c \<noteq> CHR 0x0D)
       (dropWhile (\<lambda>c. of_char c \<le> (32::nat)) url)"

definition scheme_char :: "char \<Rightarrow> bool" where
  "scheme_char c =
     (c \<in> set ''abcdefghijklmnopqrstuvwxyzABCDEFGHIJKLMNOPQRSTUVWXYZ0123456789+-.'')"

definition ascii_alpha :: "char \<Rightarrow> bool" where
  "ascii_alpha c = (c \<in> set ''abcdefghijklmnopqrstuvwxyzABCDEFGHIJKLMNOPQRSTUVWXYZ'')"

definition lower_char :: "char \<Rightarrow> char" where
  "lower_char c =
     (if (65::nat) \<le> of_char c \<and> of_char c \<le> (90::nat) then char_of (of_char c + (32::nat)) else c)"

definition urlsplit_scheme :: "string \<Rightarrow> string" where
  "urlsplit_scheme url =
     (let cleaned = urlsplit_clean url;
          s = takeWhile (\<lambda>c. c \<noteq> CHR '':'') cleaned
      in if length s < length cleaned \<and> (case s of [] \<Rightarrow> False | c # cs \<Rightarrow> ascii_alpha c) \<and>
            list_all scheme_char s
         then map lower_char s else [])"

text \<open>
  Path resolution on a machine without symbolic links, for relative paths: a leading
  \<open>./\<close> names the working directory, so it changes nothing.
\<close>

fun strip_dot_slash :: "string \<Rightarrow> string" where
  "strip_dot_slash (c1 # c2 # rest) =
     (if c1 = CHR ''.'' \<and> c2 = CHR ''/'' then strip_dot_slash rest else c1 # c2 # rest)"
| "strip_dot_slash path = path"

text \<open>
  A Linux machine whose file names hold up to 255 characters, and on which a file can be
  created in the working directory only (no other directory exists).
\<close>

definition linux_env :: os_env where
  "linux_env =
     \<lparr>platform = ''linux'', pc_name_max = Some 255,
      url_scheme = urlsplit_scheme,
      resolve = strip_dot_slash,
      can_create = (\<lambda>path. strip_dot_slash path \<noteq> [] \<and> CHR ''/'' \<notin> set (strip_dot_slash path))\<rparr>"

section \<open>Concrete collaborators and prompts\<close>

text \<open>
  A gateway that answers every request with a prompt made of a prefix and the text it
  was given, videos whose preparation never fails, and default settings with everything
  switched off.
\<close>

definition demo_settings :: video_build_settings where
  "demo_settings =
     \<lparr>prompt = None, test_mode = False, expected_length = None,
      include_read_aloud_prompt = False, interpolate = False,
      music_context = \<lparr>apply_background_music = False, generate_background_music = False\<rparr>\<rparr>"

definition demo_gateway :: "bool \<Rightarrow> string \<Rightarrow> prompt_build_settings \<Rightarrow> real \<Rightarrow> py_error + prompt" where
  "demo_gateway tm t pbs d =
     Inr \<lparr>prompt_text = (if generate_from_llm_keyword pbs then ''keywords of '' else ''scene of '') @ t,
          subtitles = [], duration = d\<rparr>"

definition demo_externals :: externals where
  "demo_externals =
     \<lparr>get_reengineered_prompt_from_text = demo_gateway,
      prepare_build_error = (\<lambda>v s. None),
      default_build_settings = demo_settings,
      default_needs_reencoding = True\<rparr>"

definition sub1 :: subtitle where
  "sub1 = \<lparr>sub_text = ''a boy in a train'', sub_duration = 3\<rparr>"

definition sub2 :: subtitle where
  "sub2 = \<lparr>sub_text = ''stones in a forest'', sub_duration = 4\<rparr>"

definition demo_prompt :: prompt where
  "demo_prompt = \<lparr>prompt_text = ''a boy in a train, stones in a forest'', subtitles = [sub1, sub2], duration = 7\<rparr>"

definition other_prompt :: prompt where
  "other_prompt = \<lparr>prompt_text = ''a cat'', subtitles = [], duration = 2\<rparr>"

text \<open>A stand-in for the inherited \<open>prepare_build\<close> that returns the node and touches no settings.\<close>

definition demo_super_prepare_build :: "video \<Rightarrow> ref \<Rightarrow> store \<Rightarrow> (py_error + video) \<times> store" where
  "demo_super_prepare_build self r objects = (Inr self, objects)"

text \<open>The prompts the gateway above returns for the keywords and for the text of a subtitle.\<close>

definition demo_kw :: "subtitle \<Rightarrow> prompt" where
  "demo_kw sub = \<lparr>prompt_text = ''keywords of '' @ sub_text sub, subtitles = [], duration = sub_duration sub\<rparr>"

definition demo_pt :: "subtitle \<Rightarrow> prompt" where
  "demo_pt sub = \<lparr>prompt_text = ''scene of '' @ sub_text sub, subtitles = [], duration = sub_duration sub\<rparr>"

section \<open>Properties of \<open>file_tools.py\<close>\<close>

lemma write_chunks_append: "write_chunks content written = written @ content"
proof (induction content written rule: write_chunks.induct)
  case (1 content written)
  show ?case
  proof (cases "take 1024 content = []")
    case True
    then show ?thesis by (subst write_chunks.simps) (simp add: Let_def)
  next
    case False
    then show ?thesis using 1 by (subst write_chunks.simps) (simp add: Let_def)
  qed
qed




lemma get_path_type_remote:
  assumes "int (length u) \<le> get_max_filename_length env"
    and "\<not> path_exists env files u" and "\<not> is_valid_filename env (basename u)"
    and "url_scheme env u \<in> set [''http'', ''https'', ''s3'', ''gs'']"
  shows "get_path_type env files (Some u) =
           PyTuple [PyDict [(''type'', PyStr (url_scheme env u)), (''path'', PyStr u)], PyNone]"
  using assms unfolding get_path_type_def Let_def by (simp del: set_simps)

lemma get_path_type_undefined:
  assumes "int (length u) \<le> get_max_filename_length env"
    and "\<not> path_exists env files u" and "\<not> is_valid_filename env (basename u)"
    and "url_scheme env u \<notin> set [''http'', ''https'', ''s3'', ''gs'']"
  shows "get_path_type env files (Some u) =
           PyTuple [PyTuple [PyDict [(''type'', PyStr ''undefined''), (''path'', PyStr ''undefined'')],
                             PyStr ''undefined path''], PyNone]"
  using assms unfolding get_path_type_def Let_def by (simp del: set_simps)

text \<open>
  An ordinary web address is classified \<open>local\<close>: the test on the base name comes before
  the look at the scheme, and \<open>video.mp4\<close> is a valid file name.
\<close>

lemma get_path_type_web_address:
  "get_path_type linux_env Map.empty (Some ''https://example.com/video.mp4'') =
     PyTuple [PyDict [(''type'', PyStr ''local''), (''path'', PyStr ''https://example.com/video.mp4'')],
              PyNone]"
  by (simp add: get_path_type_def linux_env_def get_max_filename_length_def path_exists_def
      is_valid_filename_def basename_def strip_def Let_def)

text \<open>
  So \<open>download_file\<close> hands it to \<open>shutil.copyfile\<close>, which finds no such file: nothing is
  requested from the network and nothing is written.
\<close>

lemma download_file_web_address:
  "download_file linux_env (\<lambda>u. Some (200, ''DATA'')) (Some ''https://example.com/video.mp4'')
     ''out.mp4'' Map.empty = (Inl FileNotFoundError, Map.empty)"
proof -
  have "\<not> samefile linux_env Map.empty ''https://example.com/video.mp4'' ''out.mp4''"
    by (simp add: samefile_def path_exists_def)
  then show ?thesis
    by (simp add: download_file_def get_path_type_web_address copyfile_def)
qed

text \<open>
  Where the \<open>http\<close>/\<open>https\<close> branch is reached and the answer has status 200, the body is
  written to the file named \<open>url\<close>; the file at \<open>local_path\<close> is left as it was, although
  \<open>local_path\<close> is returned.
\<close>

lemma download_file_http_writes_url:
  assumes "u \<noteq> []" and "int (length u) \<le> get_max_filename_length env"
    and "\<not> path_exists env files u" and "\<not> is_valid_filename env (basename u)"
    and "url_scheme env u = ''http'' \<or> url_scheme env u = ''https''"
    and "net u = Some (200, body)" and "can_create env u"
  shows "download_file env net (Some u) local_path files =
           (Inr (PyStr local_path), files(resolve env u \<mapsto> body))"
proof -
  have "url_scheme env u \<in> set [''http'', ''https'', ''s3'', ''gs'']"
    using assms(5) by auto
  then have g: "get_path_type env files (Some u) =
          PyTuple [PyDict [(''type'', PyStr (url_scheme env u)), (''path'', PyStr u)], PyNone]"
    using assms(2,3,4) by (intro get_path_type_remote)
  from assms(5) show ?thesis
  proof
    assume "url_scheme env u = ''http''"
    with g assms(1,6,7) show ?thesis
      by (simp add: download_file_def write_chunks_append)
  next
    assume "url_scheme env u = ''https''"
    with g assms(1,6,7) show ?thesis
      by (simp add: download_file_def write_chunks_append)
  qed
qed




text \<open>
  Claim C10 against the code. \<open>get_path_type\<close> always returns a tuple, and \<open>is_valid_path\<close>
  subscripts that tuple with the string \<open>"type"\<close> without unpacking it: whatever the path,
  the call raises \<open>TypeError\<close> and no boolean is returned. (Where \<open>urlparse\<close> itself raises,
  for a malformed bracketed host, its \<open>ValueError\<close> escapes instead; that is outside the
  model.)
\<close>

theorem is_valid_path_raises_TypeError:
  "is_valid_path env files path = Inl TypeError"
  by (simp add: is_valid_path_def get_path_type_def Let_def split: option.splits)

theorem is_valid_path_raises_TypeError_witness:
  "is_valid_path linux_env Map.empty (Some ''video.mp4'') = Inl TypeError \<and>
   is_valid_path linux_env Map.empty None = Inl TypeError"
  using is_valid_path_raises_TypeError [of linux_env Map.empty "Some ''video.mp4''"]
    is_valid_path_raises_TypeError [of linux_env Map.empty None]
  by simp

text \<open>
  The first component of what \<open>get_path_type\<close> returns is a dictionary with the keys
  \<open>type\<close> and \<open>path\<close> on every path but the last one, where it is a tuple.
\<close>

lemma get_path_type_shape:
  "(\<exists>t p e. get_path_type env files path = PyTuple [PyDict [(''type'', t), (''path'', p)], e]) \<or>
   get_path_type env files path =
     PyTuple [PyTuple [PyDict [(''type'', PyStr ''undefined''), (''path'', PyStr ''undefined'')],
                       PyStr ''undefined path''], PyNone]"
  unfolding get_path_type_def Let_def by (simp del: set_simps split: option.splits)

lemma get_path_type_undefined_example:
  "get_path_type linux_env Map.empty (Some ''ftp://example.com/notes.'') =
     PyTuple [PyTuple [PyDict [(''type'', PyStr ''undefined''), (''path'', PyStr ''undefined'')],
                       PyStr ''undefined path''], PyNone]"
  by (simp add: get_path_type_def linux_env_def get_max_filename_length_def path_exists_def
      is_valid_filename_def basename_def strip_def urlsplit_scheme_def urlsplit_clean_def
      scheme_char_def ascii_alpha_def lower_char_def Let_def)

section \<open>Properties of the composite's child list and of the ratio\<close>

lemma and_then_Inr [simp]: "and_then (Inr x) f = f x"
  by (simp add: and_then_def)

lemma and_then_Inl [simp]: "and_then (Inl e) f = Inl e"
  by (simp add: and_then_def)

lemma append_video_stores:
  "\<not> (is_empty_composite v \<and> media_url (info v) = None) \<Longrightarrow>
     append_video (Some v) videos = Inr (videos @ [v])"
  by (simp add: append_video_def)

lemma append_video_absent: "append_video None videos = Inl ValueError"
  by (simp add: append_video_def)

lemma append_videos_keep_no_empty_composite:
  assumes "append_videos children videos = Inr videos'"
    and "\<forall>v \<in> set videos. \<not> (is_empty_composite v \<and> media_url (info v) = None)"
  shows "\<forall>v \<in> set videos'. \<not> (is_empty_composite v \<and> media_url (info v) = None)"
  using assms
proof (induction children arbitrary: videos)
  case Nil
  then show ?case by simp
next
  case (Cons child rest)
  show ?case
  proof (cases child)
    case None
    with Cons.prems(1) show ?thesis by (simp add: append_video_def)
  next
    case (Some v)
    show ?thesis
    proof (cases "is_empty_composite v \<and> media_url (info v) = None")
      case True
      with Some Cons.prems(1) have "append_videos rest videos = Inr videos'"
        by (simp add: append_video_def)
      then show ?thesis using Cons.IH Cons.prems(2) by blast
    next
      case False
      with Some Cons.prems(1) have "append_videos rest (videos @ [v]) = Inr videos'"
        by (simp add: append_video_def)
      moreover have "\<forall>w \<in> set (videos @ [v]). \<not> (is_empty_composite w \<and> media_url (info w) = None)"
        using False Cons.prems(2) by auto
      ultimately show ?thesis using Cons.IH by blast
    qed
  qed
qed

text \<open>
  Claim C5. Appending an empty composite that is not yet built (no children, no media)
  returns the receiver's child list as it was, so the child count does not change; and a
  child list that is built by appending, from the empty list, never holds such a composite.
\<close>

theorem append_video_filters_empty_composite:
  "(is_empty_composite e \<and> media_url (info e) = None \<longrightarrow>
      append_video (Some e) videos = Inr videos \<and>
      (\<forall>videos'. append_video (Some e) videos = Inr videos' \<longrightarrow> length videos' = length videos)) \<and>
   (append_videos children [] = Inr stored \<longrightarrow>
      (\<forall>v \<in> set stored. \<not> (is_empty_composite v \<and> media_url (info v) = None)))"
proof (intro conjI impI)
  assume "is_empty_composite e \<and> media_url (info e) = None"
  then show e: "append_video (Some e) videos = Inr videos"
    by (simp add: append_video_def)
  then show "\<forall>videos'. append_video (Some e) videos = Inr videos' \<longrightarrow> length videos' = length videos"
    by simp
next
  assume "append_videos children [] = Inr stored"
  then show "\<forall>v \<in> set stored. \<not> (is_empty_composite v \<and> media_url (info v) = None)"
    by (rule append_videos_keep_no_empty_composite) simp
qed

text \<open>
  The scenario of the test: three new composites appended to a new composite leave its
  child list empty, while an imported clip is stored.
\<close>

theorem append_video_filters_empty_composite_witness:
  "is_empty_composite (new_CompositeVideo demo_externals) \<and>
   media_url (info (new_CompositeVideo demo_externals)) = None \<and>
   append_video (Some (new_CompositeVideo demo_externals)) [] = Inr [] \<and>
   append_videos [Some (new_CompositeVideo demo_externals), Some (new_CompositeVideo demo_externals),
                  Some (new_CompositeVideo demo_externals)] [] = Inr [] \<and>
   append_videos [Some (new_CompositeVideo demo_externals),
                  Some (ImportedVideo \<lparr>media_url = Some ''cat.mp4'', needs_reencoding = True,
                                        node_build_settings = None\<rparr>)] [] =
     Inr [ImportedVideo \<lparr>media_url = Some ''cat.mp4'', needs_reencoding = True,
                          node_build_settings = None\<rparr>]"
proof -
  have e: "is_empty_composite (new_CompositeVideo demo_externals) \<and>
           media_url (info (new_CompositeVideo demo_externals)) = None"
    by (simp add: is_empty_composite_def is_composite_video_def new_CompositeVideo_def
        new_video_info_def)
  have a: "append_video (Some (new_CompositeVideo demo_externals)) videos = Inr videos" for videos
    using append_video_filters_empty_composite [of "new_CompositeVideo demo_externals" videos] e
    by blast
  have i: "append_video (Some (ImportedVideo \<lparr>media_url = Some ''cat.mp4'', needs_reencoding = True,
                                        node_build_settings = None\<rparr>)) [] =
     Inr [ImportedVideo \<lparr>media_url = Some ''cat.mp4'', needs_reencoding = True,
                          node_build_settings = None\<rparr>]"
    by (simp add: append_video_def)
  show ?thesis using e a i by simp
qed




text \<open>
  Claim C4. When the settings hold no prompt, or a prompt of duration zero, the ratio
  computation fails with an invalid-configuration error, for every node, also one whose
  duration cannot be probed. It raises no division fault (nor does it for any other
  settings, unless probing the duration itself reports one) and returns no value, so no
  value that is not positive.
\<close>

theorem ratio_without_prompt_duration_is_invalid_configuration:
  "(prompt settings = None \<or> (\<exists>p. prompt settings = Some p \<and> duration p = 0) \<longrightarrow>
      get_ratio_to_multiply_animations get_duration self settings = Inl InvalidConfiguration \<and>
      get_ratio_to_multiply_animations get_duration self settings \<noteq> Inl DivisionFault \<and>
      (\<forall>r. get_ratio_to_multiply_animations get_duration self settings \<noteq> Inr r)) \<and>
   (get_duration self \<noteq> Inl DivisionFault \<longrightarrow>
      get_ratio_to_multiply_animations get_duration self settings \<noteq> Inl DivisionFault)"
proof (intro conjI impI)
  assume a: "prompt settings = None \<or> (\<exists>p. prompt settings = Some p \<and> duration p = 0)"
  then show e: "get_ratio_to_multiply_animations get_duration self settings = Inl InvalidConfiguration"
    by (auto simp add: get_ratio_to_multiply_animations_def)
  then show "get_ratio_to_multiply_animations get_duration self settings \<noteq> Inl DivisionFault"
    by simp
  from e show "\<forall>r. get_ratio_to_multiply_animations get_duration self settings \<noteq> Inr r"
    by simp
next
  assume "get_duration self \<noteq> Inl DivisionFault"
  then show "get_ratio_to_multiply_animations get_duration self settings \<noteq> Inl DivisionFault"
    by (auto simp add: get_ratio_to_multiply_animations_def divide_seconds_def
        split: option.splits if_splits sum.splits)
qed

text \<open>
  Settings without a prompt and settings whose prompt lasts zero seconds, for a node of
  six seconds and for one whose duration cannot be probed.
\<close>

theorem ratio_without_prompt_duration_is_invalid_configuration_witness:
  "get_ratio_to_multiply_animations (\<lambda>v. Inr 6) (new_CompositeVideo demo_externals)
     demo_settings = Inl InvalidConfiguration \<and>
   get_ratio_to_multiply_animations (\<lambda>v. Inl MediaProcessingError) (new_CompositeVideo demo_externals)
     (demo_settings\<lparr>prompt := Some (demo_prompt\<lparr>duration := 0\<rparr>)\<rparr>) = Inl InvalidConfiguration \<and>
   get_ratio_to_multiply_animations (\<lambda>v. Inr 6) (new_CompositeVideo demo_externals)
     (demo_settings\<lparr>prompt := Some (demo_prompt\<lparr>duration := 12\<rparr>)\<rparr>) \<noteq> Inl DivisionFault"
  using ratio_without_prompt_duration_is_invalid_configuration
      [of demo_settings "\<lambda>v. Inr 6" "new_CompositeVideo demo_externals"]
    ratio_without_prompt_duration_is_invalid_configuration
      [of "demo_settings\<lparr>prompt := Some (demo_prompt\<lparr>duration := 0\<rparr>)\<rparr>"
          "\<lambda>v. Inl MediaProcessingError" "new_CompositeVideo demo_externals"]
    ratio_without_prompt_duration_is_invalid_configuration
      [of "demo_settings\<lparr>prompt := Some (demo_prompt\<lparr>duration := 12\<rparr>)\<rparr>"
          "\<lambda>v. Inr 6" "new_CompositeVideo demo_externals"]
  by (simp add: demo_settings_def)

section \<open>Properties of \<open>prompt_based_video.py\<close>\<close>

text \<open>
  Claim C6. The chain returned for a prompt based video holds the re-encoding handler
  exactly when at least one child of its \<open>video_list\<close> is flagged as needing re-encoding;
  then the chain is that single handler, and when no child is flagged it is empty.
\<close>

theorem handler_chain_reencodes_iff_a_child_needs_it:
  "(VideoReencodingHandler \<in>
      set (get_and_initialize_video_handler_chain (PromptBasedVideo i videos p is_root) build_settings)) =
     (\<exists>v \<in> set videos. needs_reencoding (info v)) \<and>
   ((\<exists>v \<in> set videos. needs_reencoding (info v)) \<longrightarrow>
      get_and_initialize_video_handler_chain (PromptBasedVideo i videos p is_root) build_settings =
        [VideoReencodingHandler]) \<and>
   ((\<forall>v \<in> set videos. \<not> needs_reencoding (info v)) \<longrightarrow>
      get_and_initialize_video_handler_chain (PromptBasedVideo i videos p is_root) build_settings = [])"
proof -
  have "(1 \<le> length (filter (\<lambda>video. needs_reencoding (info video)) videos)) =
          (\<exists>v \<in> set videos. needs_reencoding (info v))"
    by (induction videos) auto
  then show ?thesis
    by (auto simp add: get_and_initialize_video_handler_chain_def)
qed

theorem handler_chain_reencodes_iff_a_child_needs_it_witness:
  "get_and_initialize_video_handler_chain
     (PromptBasedVideo (new_video_info demo_externals)
        [ImportedVideo \<lparr>media_url = Some ''cat.mp4'', needs_reencoding = False, node_build_settings = None\<rparr>,
         RawTextBasedVideo \<lparr>media_url = None, needs_reencoding = True, node_build_settings = None\<rparr> ''a cat'']
        demo_prompt False) demo_settings = [VideoReencodingHandler] \<and>
   get_and_initialize_video_handler_chain
     (PromptBasedVideo (new_video_info demo_externals)
        [ImportedVideo \<lparr>media_url = Some ''cat.mp4'', needs_reencoding = False, node_build_settings = None\<rparr>]
        demo_prompt False) demo_settings = [] \<and>
   get_and_initialize_video_handler_chain
     (PromptBasedVideo (new_video_info demo_externals) [] demo_prompt False) demo_settings = []"
  using handler_chain_reencodes_iff_a_child_needs_it
      [of "new_video_info demo_externals"
          "[ImportedVideo \<lparr>media_url = Some ''cat.mp4'', needs_reencoding = False, node_build_settings = None\<rparr>,
            RawTextBasedVideo \<lparr>media_url = None, needs_reencoding = True, node_build_settings = None\<rparr> ''a cat'']"
          demo_prompt False demo_settings]
    handler_chain_reencodes_iff_a_child_needs_it
      [of "new_video_info demo_externals"
          "[ImportedVideo \<lparr>media_url = Some ''cat.mp4'', needs_reencoding = False, node_build_settings = None\<rparr>]"
          demo_prompt False demo_settings]
    handler_chain_reencodes_iff_a_child_needs_it
      [of "new_video_info demo_externals" "[]" demo_prompt False demo_settings]
  by simp

text \<open>One turn of the loop of \<open>compose\<close>, when the collaborators succeed on the subtitle.\<close>

lemma prepare_basic_building_block_succeeds:
  assumes "externals_succeed env (test_mode bs) kw pt sub"
  shows "prepare_basic_building_block env sub bs =
    Inr (RawTextBasedVideo
           ((new_video_info env)\<lparr>node_build_settings :=
              Some (VideoBuildSettings env (Some (kw sub)) (test_mode bs))\<rparr>)
           (sub_text sub),
         RawTextBasedVideo
           ((new_video_info env)\<lparr>node_build_settings :=
              Some (VideoBuildSettings env (Some (pt sub)) (test_mode bs))\<rparr>)
           (sub_text sub),
         SeineTransition (new_video_info env)
           (RawTextBasedVideo
              ((new_video_info env)\<lparr>node_build_settings :=
                 Some (VideoBuildSettings env (Some (kw sub)) (test_mode bs))\<rparr>)
              (sub_text sub))
           (RawTextBasedVideo
              ((new_video_info env)\<lparr>node_build_settings :=
                 Some (VideoBuildSettings env (Some (pt sub)) (test_mode bs))\<rparr>)
              (sub_text sub)))"
  using assms
  by (simp add: prepare_basic_building_block_def externals_succeed_def new_RawTextBasedVideo_def
      RawTextBasedVideo_prepare_build_def new_SeineTransition_def)

lemma compose_loop_step:
  assumes "externals_succeed env (test_mode bs) kw pt sub"
  shows "compose_loop env bs (sub # subs) videos =
           compose_loop env bs subs
             (videos @ [building_block env (test_mode bs) sub (kw sub) (pt sub)])"
  using prepare_basic_building_block_succeeds[OF assms]
  by (simp add: building_block_def Let_def new_CompositeVideo_def append_video_def
      is_empty_composite_def is_composite_video_def)

lemma compose_loop_all:
  assumes "\<forall>sub \<in> set subs. externals_succeed env (test_mode bs) kw pt sub"
  shows "compose_loop env bs subs videos =
           Inr (videos @ map (\<lambda>sub. building_block env (test_mode bs) sub (kw sub) (pt sub)) subs)"
  using assms
proof (induction subs arbitrary: videos)
  case Nil
  then show ?case by simp
next
  case (Cons sub subs)
  from Cons.prems have ok: "externals_succeed env (test_mode bs) kw pt sub"
    and rest: "\<forall>s \<in> set subs. externals_succeed env (test_mode bs) kw pt s"
    by simp_all
  have "compose_loop env bs (sub # subs) videos =
          compose_loop env bs subs
            (videos @ [building_block env (test_mode bs) sub (kw sub) (pt sub)])"
    by (rule compose_loop_step[OF ok])
  also have "\<dots> = Inr ((videos @ [building_block env (test_mode bs) sub (kw sub) (pt sub)]) @
                       map (\<lambda>sub. building_block env (test_mode bs) sub (kw sub) (pt sub)) subs)"
    by (rule Cons.IH[OF rest])
  finally show ?case by simp
qed

text \<open>
  A block always has three children, so \<open>append_video\<close> stores it: the filter for empty
  composites never applies to what \<open>compose\<close> appends.
\<close>

lemma building_block_is_stored:
  "append_video (Some (building_block env tm sub keyword_prompt text_prompt)) videos =
     Inr (videos @ [building_block env tm sub keyword_prompt text_prompt])"
  by (simp add: append_video_def building_block_def Let_def is_empty_composite_def)

text \<open>\<open>PromptBasedVideo(None)\<close> raises \<open>ValueError\<close>: a prompt based video always has a prompt.\<close>

lemma new_PromptBasedVideo_without_prompt:
  "new_PromptBasedVideo env None = Inl ValueError"
  by (simp add: new_PromptBasedVideo_def)

text \<open>An exception of a collaborator ends \<open>compose\<close>: no composite is returned.\<close>

lemma compose_loop_fails:
  assumes "prepare_basic_building_block env sub bs = Inl e"
  shows "compose_loop env bs (sub # subs) videos = Inl e"
  using assms by simp

text \<open>
  Of the settings it is given, \<open>compose\<close> reads the test mode only: nothing else of the
  parent's settings reaches the children.
\<close>

lemma compose_reads_test_mode_only:
  assumes "test_mode bs = test_mode bs'"
  shows "compose env self bs = compose env self bs'"
proof -
  have b: "prepare_basic_building_block env sub bs = prepare_basic_building_block env sub bs'" for sub
    using assms by (simp add: prepare_basic_building_block_def)
  have "compose_loop env bs subs videos = compose_loop env bs' subs videos" for subs videos
    by (induction subs arbitrary: videos) (simp_all add: b and_then_def split: sum.splits)
  then show ?thesis by (simp add: compose_def)
qed

text \<open>
  Claim C7. When the collaborators succeed on every subtitle of the prompt, \<open>compose\<close>
  returns the root with one new child per subtitle appended after the children it had,
  in the order of the subtitles, and marked as root. Each new child is the block the
  claim describes: a composite of exactly three children, the keyword video, the
  transition from the keyword video to the prompt video, and the prompt video, each of the
  two videos holding settings made for it (its re-engineered prompt and the test mode,
  everything else at the defaults), not the settings \<open>compose\<close> received.
\<close>

theorem compose_appends_a_block_per_subtitle:
  assumes "\<forall>sub \<in> set (subtitles p). externals_succeed env (test_mode build_settings) kw pt sub"
  shows "compose env (PromptBasedVideo i videos p is_root) build_settings =
           Inr (PromptBasedVideo i
                  (videos @ map (\<lambda>sub. building_block env (test_mode build_settings) sub (kw sub) (pt sub))
                              (subtitles p))
                  p True) \<and>
         length (videos @ map (\<lambda>sub. building_block env (test_mode build_settings) sub (kw sub) (pt sub))
                              (subtitles p)) = length videos + length (subtitles p) \<and>
         (\<forall>sub \<in> set (subtitles p).
            \<exists>keyword_video transition prompt_video.
              video_list (building_block env (test_mode build_settings) sub (kw sub) (pt sub)) =
                [keyword_video, transition, prompt_video] \<and>
              source_video transition = keyword_video \<and> target_video transition = prompt_video \<and>
              raw_text keyword_video = sub_text sub \<and> raw_text prompt_video = sub_text sub \<and>
              node_build_settings (info keyword_video) =
                Some ((default_build_settings env)
                        \<lparr>prompt := Some (kw sub), test_mode := test_mode build_settings\<rparr>) \<and>
              node_build_settings (info prompt_video) =
                Some ((default_build_settings env)
                        \<lparr>prompt := Some (pt sub), test_mode := test_mode build_settings\<rparr>))"
proof (intro conjI)
  show "compose env (PromptBasedVideo i videos p is_root) build_settings =
           Inr (PromptBasedVideo i
                  (videos @ map (\<lambda>sub. building_block env (test_mode build_settings) sub (kw sub) (pt sub))
                              (subtitles p))
                  p True)"
    by (simp add: compose_def compose_loop_all[OF assms])
  show "length (videos @ map (\<lambda>sub. building_block env (test_mode build_settings) sub (kw sub) (pt sub))
                              (subtitles p)) = length videos + length (subtitles p)"
    by simp
  show "\<forall>sub \<in> set (subtitles p).
            \<exists>keyword_video transition prompt_video.
              video_list (building_block env (test_mode build_settings) sub (kw sub) (pt sub)) =
                [keyword_video, transition, prompt_video] \<and>
              source_video transition = keyword_video \<and> target_video transition = prompt_video \<and>
              raw_text keyword_video = sub_text sub \<and> raw_text prompt_video = sub_text sub \<and>
              node_build_settings (info keyword_video) =
                Some ((default_build_settings env)
                        \<lparr>prompt := Some (kw sub), test_mode := test_mode build_settings\<rparr>) \<and>
              node_build_settings (info prompt_video) =
                Some ((default_build_settings env)
                        \<lparr>prompt := Some (pt sub), test_mode := test_mode build_settings\<rparr>)"
    by (simp add: building_block_def Let_def VideoBuildSettings_def)
qed

text \<open>
  The theorem on a prompt of two subtitles: the root, empty before, holds two blocks
  afterwards, the block of the first subtitle first.
\<close>

theorem compose_appends_a_block_per_subtitle_witness:
  "externals_succeed demo_externals (test_mode demo_settings) demo_kw demo_pt sub1 \<and>
   externals_succeed demo_externals (test_mode demo_settings) demo_kw demo_pt sub2 \<and>
   compose demo_externals (PromptBasedVideo (new_video_info demo_externals) [] demo_prompt False)
     demo_settings =
     Inr (PromptBasedVideo (new_video_info demo_externals)
            [building_block demo_externals False sub1 (demo_kw sub1) (demo_pt sub1),
             building_block demo_externals False sub2 (demo_kw sub2) (demo_pt sub2)]
            demo_prompt True)"
proof -
  have s: "externals_succeed demo_externals (test_mode demo_settings) demo_kw demo_pt sub" for sub
    by (simp add: externals_succeed_def demo_externals_def demo_gateway_def demo_kw_def demo_pt_def)
  then have "\<forall>sub \<in> set (subtitles demo_prompt).
               externals_succeed demo_externals (test_mode demo_settings) demo_kw demo_pt sub"
    by simp
  from compose_appends_a_block_per_subtitle [OF this, of "new_video_info demo_externals" "[]" False]
  have "compose demo_externals (PromptBasedVideo (new_video_info demo_externals) [] demo_prompt False)
          demo_settings =
        Inr (PromptBasedVideo (new_video_info demo_externals)
               ([] @ map (\<lambda>sub. building_block demo_externals (test_mode demo_settings) sub
                                  (demo_kw sub) (demo_pt sub)) (subtitles demo_prompt))
               demo_prompt True)"
    by blast
  then show ?thesis
    using s by (simp add: demo_prompt_def demo_settings_def)
qed

text \<open>
  What a call of \<open>prepare_build\<close> does to the prompt of a settings object, when the
  inherited \<open>prepare_build\<close> leaves the prompts of all settings objects alone: the object
  it was called with receives the node's prompt if it had none; nothing else changes.
\<close>

lemma prepare_build_prompt:
  assumes frame: "\<forall>v r objs r'. prompt (snd (sp v r objs) r') = prompt (objs r')"
  shows "prompt (snd (prepare_build env sp self arg objects) r') =
           (if r' = (case arg of None \<Rightarrow> default_argument | Some given \<Rightarrow> given) \<and>
               prompt (objects r') = None
            then Some (own_prompt self) else prompt (objects r'))"
  using frame
  by (auto simp add: prepare_build_def Let_def split: sum.splits option.splits)

lemma later_calls_keep_prompt:
  assumes frame: "\<forall>v r objs r'. prompt (snd (sp v r objs) r') = prompt (objs r')"
    and "prompt (objects default_argument) = Some q"
  shows "prompt (fold (\<lambda>v objs. snd (prepare_build env sp v None objs)) later objects
                  default_argument) = Some q"
  using assms(2)
proof (induction later arbitrary: objects)
  case Nil
  then show ?case by simp
next
  case (Cons v later)
  have "prompt (snd (prepare_build env sp v None objects) default_argument) = Some q"
    using Cons.prems by (simp add: prepare_build_prompt[OF frame])
  then show ?case using Cons.IH by simp
qed

lemma prepare_build_with_prompt_set:
  assumes "prompt (objects default_argument) = Some q"
  shows "prepare_build env sp self None objects =
           (case compose env self (objects default_argument) of
              Inl e \<Rightarrow> (Inl e, objects)
            | Inr self' \<Rightarrow> sp self' default_argument objects)"
  using assms by (simp add: prepare_build_def Let_def)

text \<open>
  Claim C9. Provided the inherited \<open>prepare_build\<close> leaves the prompts of the settings
  objects alone: a call with the caller's settings object \<open>r\<close>, whose prompt is absent,
  leaves the node's own prompt in that object. And when the shared default object has no
  prompt, a call without argument on \<open>self\<close> stores the prompt of \<open>self\<close> in it; after any
  further calls without argument (on the nodes \<open>later\<close>) it is still there; and one more
  such call on any node \<open>other\<close> stores nothing: it runs \<open>compose\<close> and the inherited
  \<open>prepare_build\<close> on the default object, which still holds the prompt of \<open>self\<close>.
\<close>

theorem prepare_build_stores_prompt_in_shared_settings:
  assumes frame: "\<forall>v r objs r'. prompt (snd (sp v r objs) r') = prompt (objs r')"
  shows "(prompt (objects r) = None \<longrightarrow>
            prompt (snd (prepare_build env sp self (Some r) objects) r) = Some (own_prompt self)) \<and>
         (prompt (objects default_argument) = None \<longrightarrow>
            (let objects1 = snd (prepare_build env sp self None objects);
                 objects2 = fold (\<lambda>v objs. snd (prepare_build env sp v None objs)) later objects1
             in prompt (objects1 default_argument) = Some (own_prompt self) \<and>
                prompt (objects2 default_argument) = Some (own_prompt self) \<and>
                prepare_build env sp other None objects2 =
                  (case compose env other (objects2 default_argument) of
                     Inl e \<Rightarrow> (Inl e, objects2)
                   | Inr other' \<Rightarrow> sp other' default_argument objects2) \<and>
                prompt (snd (prepare_build env sp other None objects2) default_argument) =
                  Some (own_prompt self)))"
proof (intro conjI impI)
  assume "prompt (objects r) = None"
  then show "prompt (snd (prepare_build env sp self (Some r) objects) r) = Some (own_prompt self)"
    by (simp add: prepare_build_prompt[OF frame])
next
  assume none: "prompt (objects default_argument) = None"
  define objects1 where "objects1 = snd (prepare_build env sp self None objects)"
  define objects2 where
    "objects2 = fold (\<lambda>v objs. snd (prepare_build env sp v None objs)) later objects1"
  have p1: "prompt (objects1 default_argument) = Some (own_prompt self)"
    using none by (simp add: objects1_def prepare_build_prompt[OF frame])
  have p2: "prompt (objects2 default_argument) = Some (own_prompt self)"
    unfolding objects2_def
    using later_calls_keep_prompt[where sp=sp and objects=objects1, OF frame p1] by simp
  have run: "prepare_build env sp other None objects2 =
                  (case compose env other (objects2 default_argument) of
                     Inl e \<Rightarrow> (Inl e, objects2)
                   | Inr other' \<Rightarrow> sp other' default_argument objects2)"
    using prepare_build_with_prompt_set[where objects=objects2, OF p2] by simp
  have p3: "prompt (snd (prepare_build env sp other None objects2) default_argument) =
              Some (own_prompt self)"
    using p2 by (simp add: prepare_build_prompt[OF frame])
  show "let objects1 = snd (prepare_build env sp self None objects);
            objects2 = fold (\<lambda>v objs. snd (prepare_build env sp v None objs)) later objects1
        in prompt (objects1 default_argument) = Some (own_prompt self) \<and>
           prompt (objects2 default_argument) = Some (own_prompt self) \<and>
           prepare_build env sp other None objects2 =
             (case compose env other (objects2 default_argument) of
                Inl e \<Rightarrow> (Inl e, objects2)
              | Inr other' \<Rightarrow> sp other' default_argument objects2) \<and>
           prompt (snd (prepare_build env sp other None objects2) default_argument) =
             Some (own_prompt self)"
    using p1 p2 run p3 unfolding Let_def objects1_def objects2_def by simp
qed

text \<open>
  Two nodes with different prompts and a store in which no settings object has a prompt:
  after the call without argument on the first node, the default object holds the first
  node's prompt, and after the call on the second it still does, not the second's.
\<close>

theorem prepare_build_stores_prompt_in_shared_settings_witness:
  "(\<forall>v r objs r'. prompt (snd (demo_super_prepare_build v r objs) r') = prompt (objs r')) \<and>
   prompt ((\<lambda>r. demo_settings) default_argument) = None \<and>
   prompt (snd (prepare_build demo_externals demo_super_prepare_build
                  (PromptBasedVideo (new_video_info demo_externals) [] demo_prompt False)
                  (Some 5) (\<lambda>r. demo_settings)) 5) = Some demo_prompt \<and>
   prompt (snd (prepare_build demo_externals demo_super_prepare_build
                  (PromptBasedVideo (new_video_info demo_externals) [] demo_prompt False)
                  None (\<lambda>r. demo_settings)) default_argument) = Some demo_prompt \<and>
   prompt (snd (prepare_build demo_externals demo_super_prepare_build
                  (PromptBasedVideo (new_video_info demo_externals) [] other_prompt False) None
                  (snd (prepare_build demo_externals demo_super_prepare_build
                          (PromptBasedVideo (new_video_info demo_externals) [] demo_prompt False)
                          None (\<lambda>r. demo_settings)))) default_argument) = Some demo_prompt \<and>
   Some demo_prompt \<noteq> Some other_prompt"
proof -
  have frame: "\<forall>v r objs r'. prompt (snd (demo_super_prepare_build v r objs) r') = prompt (objs r')"
    by (simp add: demo_super_prepare_build_def)
  have none: "prompt ((\<lambda>r. demo_settings) r) = None" for r :: ref
    by (simp add: demo_settings_def)
  have differ: "Some demo_prompt \<noteq> Some other_prompt"
    by (simp add: demo_prompt_def other_prompt_def)
  note t = prepare_build_stores_prompt_in_shared_settings
        [OF frame, of "\<lambda>r. demo_settings" 5 demo_externals
           "PromptBasedVideo (new_video_info demo_externals) [] demo_prompt False" "[]"
           "PromptBasedVideo (new_video_info demo_externals) [] other_prompt False",
         unfolded Let_def fold.simps id_apply video.sel]
  from t none
  have a: "prompt (snd (prepare_build demo_externals demo_super_prepare_build
                  (PromptBasedVideo (new_video_info demo_externals) [] demo_prompt False)
                  (Some 5) (\<lambda>r. demo_settings)) 5) = Some demo_prompt"
    by blast
  from t none
  have b: "prompt (snd (prepare_build demo_externals demo_super_prepare_build
                  (PromptBasedVideo (new_video_info demo_externals) [] demo_prompt False)
                  None (\<lambda>r. demo_settings)) default_argument) = Some demo_prompt"
    and c: "prompt (snd (prepare_build demo_externals demo_super_prepare_build
                  (PromptBasedVideo (new_video_info demo_externals) [] other_prompt False) None
                  (snd (prepare_build demo_externals demo_super_prepare_build
                          (PromptBasedVideo (new_video_info demo_externals) [] demo_prompt False)
                          None (\<lambda>r. demo_settings)))) default_argument) = Some demo_prompt"
    by blast+
  from frame none a b c differ show ?thesis
    by blast
qed

end
